theory Spec2Isabelle
  imports Main
begin

section \<open>JavaScript values\<close>

text \<open>
  The payloads handed to \<open>reply.send\<close> are JavaScript object literals. An object is kept
  as the list of its members in the order the literal writes them; a member whose value is
  \<open>undefined\<close> is still a member of the object, and only disappears when the object is
  written as JSON. HTTP status codes are integers, so numbers are modelled as \<open>int\<close>.
\<close>

datatype jsval =
    Undefined
  | Str string
  | Num int
  | Arr "jsval list"
  | Obj "(string \<times> jsval) list"

text \<open>A property typed \<open>string | undefined\<close>, read as a value.\<close>

fun str_or_undefined :: "string option \<Rightarrow> jsval" where
  "str_or_undefined None = Undefined"
| "str_or_undefined (Some s) = Str s"

text \<open>
  \<open>a || b\<close> on a \<open>string | undefined\<close>: both \<open>undefined\<close> and the empty string are
  falsy, so either of them selects \<open>b\<close>.
\<close>

fun truthy :: "string option \<Rightarrow> bool" where
  "truthy None = False"
| "truthy (Some s) = (s \<noteq> [])"

fun or_else :: "string option \<Rightarrow> string \<Rightarrow> string" where
  "or_else None b = b"
| "or_else (Some a) b = (if a = [] then b else a)"

text \<open>\<open>a ?? b\<close> on a \<open>number | undefined\<close>: only a missing value selects \<open>b\<close>.\<close>

fun nullish :: "int option \<Rightarrow> int \<Rightarrow> int" where
  "nullish None b = b"
| "nullish (Some a) b = a"

text \<open>
  What \<open>JSON.stringify\<close> keeps of an object's members: those whose value is not
  \<open>undefined\<close>.
\<close>

definition json_members :: "(string \<times> jsval) list \<Rightarrow> (string \<times> jsval) list" where
  "json_members ms = filter (\<lambda>m. snd m \<noteq> Undefined) ms"

text \<open>
  The members of \<open>payload.error\<close> as they appear in the JSON body, their names, and the
  lookup of one of them (\<open>None\<close> when the body has no such field).
\<close>

definition error_object :: "jsval \<Rightarrow> (string \<times> jsval) list" where
  "error_object p =
     (case p of
        Obj ms \<Rightarrow> (case map_of ms ''error'' of
                     Some (Obj fs) \<Rightarrow> json_members fs
                   | _ \<Rightarrow> [])
      | _ \<Rightarrow> [])"

definition error_keys :: "jsval \<Rightarrow> string list" where
  "error_keys p = map fst (error_object p)"

definition error_field :: "jsval \<Rightarrow> string \<Rightarrow> jsval option" where
  "error_field p k = map_of (error_object p) k"

section \<open>Process environment, errors, replies and the request log\<close>

text \<open>The two variables of \<open>process.env\<close> the plugins read; \<open>None\<close> is an unset variable.\<close>

record process_env =
  NODE_ENV :: "string option"
  JWT_SECRET :: "string option"

text \<open>
  The properties of a \<open>FastifyError\<close> the error handler reads. \<open>statusCode\<close>,
  \<open>validation\<close> and \<open>stack\<close> are optional in the declared type; \<open>code\<close> is absent on
  a plain \<open>Error\<close>, which is what the handler's \<open>error.code || ...\<close> provides for.
\<close>

record FastifyError =
  message :: string
  code :: "string option"
  statusCode :: "int option"
  validation :: "jsval list option"
  stack :: "string option"

text \<open>
  A reply records what the plugin's code does to it: \<open>status\<close> is the argument of
  \<open>reply.status\<close> / \<open>reply.code\<close>, \<open>payload\<close> the argument of \<open>send\<close>, and \<open>sent\<close>
  whether \<open>send\<close> was called. A fresh reply has status 200 and nothing sent. How
  the framework then writes a reply to the connection is not part of the model.
\<close>

record reply =
  status :: int
  payload :: "jsval option"
  sent :: bool

definition new_reply :: reply where
  "new_reply = \<lparr>status = 200, payload = None, sent = False\<rparr>"

text \<open>
  A log entry is the level of the logger method called and the message given to it; the
  error object that \<open>request.log.error\<close> and \<open>request.log.warn\<close> receive as their
  first argument is not kept.
\<close>

datatype log_level = LogError | LogWarn

type_synonym log_entry = "log_level \<times> string"

section \<open>The error handler plugin\<close>

text \<open>\<open>const statusCode = error.statusCode ?? 500\<close>\<close>

definition resolved_status :: "FastifyError \<Rightarrow> int" where
  "resolved_status error = nullish (statusCode error) 500"

text \<open>The two logging branches, on the resolved status.\<close>

definition log_by_severity :: "FastifyError \<Rightarrow> log_entry list" where
  "log_by_severity error =
     (if resolved_status error \<ge> 500 then [(LogError, ''Server error: '' @ message error)]
      else if resolved_status error \<ge> 400 then [(LogWarn, ''Client error: '' @ message error)]
      else [])"

text \<open>
  \<open>...(process.env.NODE_ENV !== "production" && { stack: error.stack })\<close>: spreading
  \<open>false\<close> adds nothing; otherwise the member \<open>stack\<close> is added with the value of
  \<open>error.stack\<close>, which may be \<open>undefined\<close>.
\<close>

definition stack_spread :: "process_env \<Rightarrow> FastifyError \<Rightarrow> (string \<times> jsval) list" where
  "stack_spread env error =
     (if NODE_ENV env \<noteq> Some ''production''
      then [(''stack'', str_or_undefined (stack error))]
      else [])"

text \<open>What a call on the reply can throw.\<close>

datatype thrown = FST_ERR_BAD_STATUS_CODE int

text \<open>
  Modelled from the spec: \<open>reply.status\<close> is the framework's and is not part of the
  repository's sources. The spec's status resolution uses a status in 100..599; the
  framework the plugin declares (Fastify 5.x) rejects any other status by throwing
  \<open>FST_ERR_BAD_STATUS_CODE\<close>, and the reply is left as it was.
\<close>

definition reply_status :: "int \<Rightarrow> reply \<Rightarrow> thrown + reply" where
  "reply_status c rep =
     (if c < 100 \<or> 599 < c then Inl (FST_ERR_BAD_STATUS_CODE c)
      else Inr (rep\<lparr>status := c\<rparr>))"

text \<open>
  \<open>reply.status(c).send(p)\<close>: \<open>send\<close> is reached only when \<open>reply.status\<close> has
  returned.
\<close>

definition status_send :: "int \<Rightarrow> jsval \<Rightarrow> reply \<Rightarrow> thrown + reply" where
  "status_send c p rep =
     (case reply_status c rep of
        Inl t \<Rightarrow> Inl t
      | Inr rep' \<Rightarrow> Inr (rep'\<lparr>payload := Some p, sent := True\<rparr>))"

text \<open>
  The function given to \<open>setErrorHandler\<close>. It returns what it logs and either the reply
  after \<open>reply.status(...).send(...)\<close> or what that call threw; the logging comes first
  and happens in both cases. An array is truthy even when empty, so the validation branch
  is taken exactly when \<open>error.validation\<close> is present.
\<close>

definition errorHandler ::
  "process_env \<Rightarrow> FastifyError \<Rightarrow> reply \<Rightarrow> log_entry list \<times> (thrown + reply)" where
  "errorHandler env error rep =
     (log_by_severity error,
      (case validation error of
         Some v \<Rightarrow>
           status_send 422
             (Obj [(''error'', Obj (
                [(''message'', Str ''Validation failed''),
                 (''code'', Str (or_else (code error) ''VALIDATION_ERROR'')),
                 (''statusCode'', Num 422),
                 (''validation'', Arr v)] @ stack_spread env error))])
             rep
       | None \<Rightarrow>
           status_send (resolved_status error)
             (Obj [(''error'', Obj (
                [(''message'', Str (message error)),
                 (''code'', str_or_undefined (code error)),
                 (''statusCode'', Num (resolved_status error))] @ stack_spread env error))])
             rep))"

text \<open>
  The JSON body the handler sends on a fresh reply, for reading fields off it; there is
  none when the handler throws before \<open>send\<close>.
\<close>

definition error_response :: "process_env \<Rightarrow> FastifyError \<Rightarrow> jsval" where
  "error_response env error =
     (case snd (errorHandler env error new_reply) of
        Inr rep \<Rightarrow> (case payload rep of Some p \<Rightarrow> p | None \<Rightarrow> Undefined)
      | Inl t \<Rightarrow> Undefined)"







section \<open>The JWT plugin\<close>

text \<open>
  What the plugin hands to \<open>fastify.register(fastifyJwt, ...)\<close>. Signing and verifying
  are done by that library; the plugin only chooses the secret and the signing options.
\<close>

record jwt_options =
  secret :: string
  algorithm :: string
  expiresIn :: string

text \<open>
  Plugin start-up: the secret is \<open>process.env.JWT_SECRET || "development-secret-..."\<close>,
  and the warning is logged when \<open>!process.env.JWT_SECRET\<close> and \<open>NODE_ENV\<close> is not
  \<open>"test"\<close>. The result is what was logged and the options registered.
\<close>

definition jwtPlugin :: "process_env \<Rightarrow> log_entry list \<times> jwt_options" where
  "jwtPlugin env =
     ((if \<not> truthy (JWT_SECRET env) \<and> NODE_ENV env \<noteq> Some ''test''
       then [(LogWarn,
              ''JWT_SECRET not set. Using development secret. Set JWT_SECRET in production!'')]
       else []),
      \<lparr>secret = or_else (JWT_SECRET env) ''development-secret-change-in-production'',
       algorithm = ''HS256'',
       expiresIn = ''1h''\<rparr>)"

text \<open>
  A request, as far as the gate is concerned: its \<open>Authorization\<close> header and the claim
  set that a successful verification attaches as \<open>request.user\<close>.
\<close>

record request =
  authorization :: "string option"
  user :: "jsval option"

text \<open>
  The \<open>authenticate\<close> decorator. \<open>request.jwtVerify\<close> belongs to the JWT library and is
  a parameter: it either throws (\<open>Inl\<close>, with whatever it throws) or returns, having
  attached the claims to the request (\<open>Inr\<close>). The \<open>catch\<close> ignores what was thrown.
  \<open>reply.code(401)\<close> cannot throw, 401 being a status the framework accepts.
\<close>

definition authenticate ::
  "(request \<Rightarrow> 'e + request) \<Rightarrow> request \<Rightarrow> reply \<Rightarrow> request \<times> reply" where
  "authenticate jwtVerify req rep =
     (case jwtVerify req of
        Inr req' \<Rightarrow> (req', rep)
      | Inl _ \<Rightarrow>
          (req,
           rep\<lparr>status := 401,
               payload := Some (Obj [(''error'', Obj
                 [(''message'', Str ''Unauthorized''),
                  (''code'', Str ''UNAUTHORIZED''),
                  (''statusCode'', Num 401)])]),
               sent := True\<rparr>))"

text \<open>
  Modelled from the spec: the framework's request life cycle for a route registered with
  \<open>onRequest: [fastify.authenticate]\<close>, which is not part of the repository's sources.
  The gate runs first on a fresh reply; if it has sent the reply, processing of the request
  is aborted and that reply is the response; otherwise the route handler runs on the
  request the gate returned and its result is sent with the reply's status. The handler
  may have side effects, kept in a state of type \<open>'s\<close>.
\<close>

record 's outcome =
  response :: reply
  handler_invoked :: bool
  effects :: 's

definition protected_route ::
  "(request \<Rightarrow> 'e + request) \<Rightarrow> (request \<Rightarrow> 's \<Rightarrow> 's \<times> jsval) \<Rightarrow> request \<Rightarrow> 's \<Rightarrow> 's outcome" where
  "protected_route jwtVerify handler req s =
     (case authenticate jwtVerify req new_reply of
        (req', rep) \<Rightarrow>
          if sent rep
          then \<lparr>response = rep, handler_invoked = False, effects = s\<rparr>
          else (case handler req' s of
                  (s', body) \<Rightarrow>
                    \<lparr>response = rep\<lparr>payload := Some body, sent := True\<rparr>,
                     handler_invoked = True,
                     effects = s'\<rparr>))"

section \<open>Helper facts\<close>

text \<open>When the handler answers, when it throws, and what it sends.\<close>

lemma errorHandler_validation:
  "validation error = Some v \<Longrightarrow>
   snd (errorHandler env error rep) =
     Inr (rep\<lparr>status := 422,
             payload := Some (Obj [(''error'', Obj (
               [(''message'', Str ''Validation failed''),
                (''code'', Str (or_else (code error) ''VALIDATION_ERROR'')),
                (''statusCode'', Num 422),
                (''validation'', Arr v)] @ stack_spread env error))]),
             sent := True\<rparr>)"
  by (simp add: errorHandler_def status_send_def reply_status_def)

lemma errorHandler_plain:
  "validation error = None \<Longrightarrow> 100 \<le> resolved_status error \<Longrightarrow> resolved_status error \<le> 599 \<Longrightarrow>
   snd (errorHandler env error rep) =
     Inr (rep\<lparr>status := resolved_status error,
             payload := Some (Obj [(''error'', Obj (
               [(''message'', Str (message error)),
                (''code'', str_or_undefined (code error)),
                (''statusCode'', Num (resolved_status error))] @ stack_spread env error))]),
             sent := True\<rparr>)"
  by (simp add: errorHandler_def status_send_def reply_status_def)




text \<open>The fields of the JSON body, branch by branch.\<close>

lemma error_field_validation:
  assumes "validation error = Some v"
  shows "error_field (error_response env error) ''message'' = Some (Str ''Validation failed'')"
    and "error_field (error_response env error) ''code'' =
           Some (Str (or_else (code error) ''VALIDATION_ERROR''))"
    and "error_field (error_response env error) ''statusCode'' = Some (Num 422)"
    and "error_field (error_response env error) ''validation'' = Some (Arr v)"
    and "error_field (error_response env error) ''stack'' =
           (if NODE_ENV env = Some ''production'' then None else map_option Str (stack error))"
  using assms
  by (cases "stack error";
      simp add: error_response_def errorHandler_validation error_field_def error_object_def
        json_members_def stack_spread_def)+

lemma error_field_plain:
  assumes "validation error = None"
    and "100 \<le> resolved_status error" and "resolved_status error \<le> 599"
  shows "error_field (error_response env error) ''message'' = Some (Str (message error))"
    and "error_field (error_response env error) ''code'' = map_option Str (code error)"
    and "error_field (error_response env error) ''statusCode'' =
           Some (Num (resolved_status error))"
    and "error_field (error_response env error) ''validation'' = None"
    and "error_field (error_response env error) ''stack'' =
           (if NODE_ENV env = Some ''production'' then None else map_option Str (stack error))"
  using assms
  by (cases "code error"; cases "stack error";
      simp add: error_response_def errorHandler_plain error_field_def error_object_def
        json_members_def stack_spread_def)+

section \<open>Properties of the error handler\<close>

text \<open>
  C2 (as amended). A failure that carries a validation array is answered with status 422,
  both as the HTTP status and as the \<open>statusCode\<close> field, whatever its own statusCode;
  the validation array is part of the body; and the \<open>code\<close> field is the record's code
  when that is a non-empty string, and \<open>VALIDATION_ERROR\<close> when the record has no code or
  its code is the empty string (the handler writes \<open>error.code || "VALIDATION_ERROR"\<close>).
\<close>

theorem C2_validation_response:
  assumes "validation error = Some v"
  shows "(\<exists>r. snd (errorHandler env error rep) = Inr r \<and> status r = 422 \<and> sent r)
       \<and> error_field (error_response env error) ''statusCode'' = Some (Num 422)
       \<and> error_field (error_response env error) ''validation'' = Some (Arr v)
       \<and> (\<forall>c. code error = Some c \<and> c \<noteq> [] \<longrightarrow>
             error_field (error_response env error) ''code'' = Some (Str c))
       \<and> (code error = None \<or> code error = Some [] \<longrightarrow>
             error_field (error_response env error) ''code'' = Some (Str ''VALIDATION_ERROR''))"
  using assms by (auto simp: errorHandler_validation error_field_validation)

text \<open>
  The theorem at a schema validation failure as the framework raises it: nominal status
  400, code \<open>FST_ERR_VALIDATION\<close>.
\<close>

theorem C2_validation_response_witness:
  "map_sum id status (snd (errorHandler \<lparr>NODE_ENV = None, JWT_SECRET = None\<rparr>
      \<lparr>message = ''querystring must have required property name'',
       code = Some ''FST_ERR_VALIDATION'', statusCode = Some 400,
       validation = Some [Str ''name''], stack = None\<rparr> new_reply)) = Inr 422
   \<and> error_field (error_response \<lparr>NODE_ENV = None, JWT_SECRET = None\<rparr>
      \<lparr>message = ''querystring must have required property name'',
       code = Some ''FST_ERR_VALIDATION'', statusCode = Some 400,
       validation = Some [Str ''name''], stack = None\<rparr>) ''code''
       = Some (Str ''FST_ERR_VALIDATION'')"
  using C2_validation_response [of
      "\<lparr>message = ''querystring must have required property name'',
        code = Some ''FST_ERR_VALIDATION'', statusCode = Some 400,
        validation = Some [Str ''name''], stack = None\<rparr>"
      "[Str ''name'']" "\<lparr>NODE_ENV = None, JWT_SECRET = None\<rparr>" new_reply]
  by auto

text \<open>
  A validation failure whose code is supplied as the empty string: the response's code is
  \<open>VALIDATION_ERROR\<close>, not the record's code.
\<close>

theorem C2_empty_code_counterexample:
  "validation \<lparr>message = ''bad input'', code = Some '''', statusCode = Some 400,
       validation = Some [], stack = None\<rparr> \<noteq> None
   \<and> code \<lparr>message = ''bad input'', code = Some '''', statusCode = Some 400,
       validation = Some [], stack = None\<rparr> = Some ''''
   \<and> error_field (error_response \<lparr>NODE_ENV = None, JWT_SECRET = None\<rparr>
        \<lparr>message = ''bad input'', code = Some '''', statusCode = Some 400,
         validation = Some [], stack = None\<rparr>) ''code'' = Some (Str ''VALIDATION_ERROR'')
   \<and> Str ''VALIDATION_ERROR'' \<noteq> Str ''''"
  by (simp add: error_field_validation)



text \<open>
  C4. The claim is that the \<open>statusCode\<close> field of the handler's response always lies in
  400..599, and the handler's own comment says that a status below 400 has become 500 by
  the time it runs. The handler does nothing of the kind itself: for an error whose
  statusCode is 200 it answers with HTTP status 200 and writes 200 into the body.
\<close>

theorem C4_below_400_code_bug:
  "snd (errorHandler \<lparr>NODE_ENV = Some ''production'', JWT_SECRET = None\<rparr>
      \<lparr>message = ''not an error status'', code = None, statusCode = Some 200,
       validation = None, stack = None\<rparr> new_reply)
     = Inr \<lparr>status = 200,
            payload = Some (Obj [(''error'', Obj
              [(''message'', Str ''not an error status''),
               (''code'', Undefined),
               (''statusCode'', Num 200)])]),
            sent = True\<rparr>
   \<and> error_field (error_response \<lparr>NODE_ENV = Some ''production'', JWT_SECRET = None\<rparr>
      \<lparr>message = ''not an error status'', code = None, statusCode = Some 200,
       validation = None, stack = None\<rparr>) ''statusCode'' = Some (Num 200)
   \<and> \<not> (400 \<le> (200::int) \<and> (200::int) \<le> 599)"
  by (simp add: errorHandler_plain error_field_plain resolved_status_def stack_spread_def
      new_reply_def)







text \<open>
  C9. The log entry is chosen from the record's own statusCode, with 500 for a missing
  one, before the validation branch is looked at: 500 and above is logged as an error,
  400 to 499 as a warning, anything lower is not logged. A record with a validation array
  is answered with 422 all the same, so one with a statusCode of 500 or more is logged as
  an error and answered with 422.
\<close>

theorem C9_log_severity:
  "fst (errorHandler env error rep) =
     (if 500 \<le> (case statusCode error of Some s \<Rightarrow> s | None \<Rightarrow> 500)
      then [(LogError, ''Server error: '' @ message error)]
      else if 400 \<le> (case statusCode error of Some s \<Rightarrow> s | None \<Rightarrow> 500)
      then [(LogWarn, ''Client error: '' @ message error)]
      else [])
   \<and> (validation error \<noteq> None \<longrightarrow>
        (\<exists>r. snd (errorHandler env error rep) = Inr r \<and> status r = 422 \<and> sent r))"
proof
  show "fst (errorHandler env error rep) =
     (if 500 \<le> (case statusCode error of Some s \<Rightarrow> s | None \<Rightarrow> 500)
      then [(LogError, ''Server error: '' @ message error)]
      else if 400 \<le> (case statusCode error of Some s \<Rightarrow> s | None \<Rightarrow> 500)
      then [(LogWarn, ''Client error: '' @ message error)]
      else [])"
    by (cases "statusCode error")
      (simp_all add: errorHandler_def log_by_severity_def resolved_status_def)
  show "validation error \<noteq> None \<longrightarrow>
        (\<exists>r. snd (errorHandler env error rep) = Inr r \<and> status r = 422 \<and> sent r)"
    by (auto simp: errorHandler_validation)
qed

text \<open>The theorem at a record with a validation array and statusCode 503.\<close>

theorem C9_log_severity_witness:
  "fst (errorHandler \<lparr>NODE_ENV = None, JWT_SECRET = None\<rparr>
      \<lparr>message = ''upstream down'', code = None, statusCode = Some 503,
       validation = Some [], stack = None\<rparr> new_reply)
     = [(LogError, ''Server error: upstream down'')]
   \<and> map_sum id status (snd (errorHandler \<lparr>NODE_ENV = None, JWT_SECRET = None\<rparr>
      \<lparr>message = ''upstream down'', code = None, statusCode = Some 503,
       validation = Some [], stack = None\<rparr> new_reply)) = Inr 422"
  using C9_log_severity [of "\<lparr>NODE_ENV = None, JWT_SECRET = None\<rparr>"
      "\<lparr>message = ''upstream down'', code = None, statusCode = Some 503,
        validation = Some [], stack = None\<rparr>" new_reply]
  by auto

section \<open>Properties of the JWT plugin\<close>

text \<open>
  C7 (as amended). At start-up, when \<open>JWT_SECRET\<close> is unset or set to the empty string,
  the fixed development secret is used, and the warning is logged unless \<open>NODE_ENV\<close> is
  \<open>test\<close>, in which case nothing is logged. When \<open>JWT_SECRET\<close> is set to a non-empty
  string, that string is the secret and nothing is logged.
\<close>

theorem C7_secret_and_warning:
  "(JWT_SECRET env = None \<or> JWT_SECRET env = Some [] \<longrightarrow>
      secret (snd (jwtPlugin env)) = ''development-secret-change-in-production''
      \<and> fst (jwtPlugin env) =
          (if NODE_ENV env = Some ''test'' then []
           else [(LogWarn,
                  ''JWT_SECRET not set. Using development secret. Set JWT_SECRET in production!'')]))
   \<and> (\<forall>s. JWT_SECRET env = Some s \<and> s \<noteq> [] \<longrightarrow>
          secret (snd (jwtPlugin env)) = s \<and> fst (jwtPlugin env) = [])"
  by (auto simp: jwtPlugin_def)

text \<open>
  The theorem with the secret unset (in development and in test mode) and with the secret
  set.
\<close>

theorem C7_secret_and_warning_witness:
  "secret (snd (jwtPlugin \<lparr>NODE_ENV = None, JWT_SECRET = None\<rparr>))
     = ''development-secret-change-in-production''
   \<and> fst (jwtPlugin \<lparr>NODE_ENV = None, JWT_SECRET = None\<rparr>)
     = [(LogWarn, ''JWT_SECRET not set. Using development secret. Set JWT_SECRET in production!'')]
   \<and> fst (jwtPlugin \<lparr>NODE_ENV = Some ''test'', JWT_SECRET = None\<rparr>) = []
   \<and> secret (snd (jwtPlugin \<lparr>NODE_ENV = Some ''test'', JWT_SECRET = Some ''test-secret-key''\<rparr>))
     = ''test-secret-key''
   \<and> fst (jwtPlugin \<lparr>NODE_ENV = None, JWT_SECRET = Some ''test-secret-key''\<rparr>) = []"
  using
    C7_secret_and_warning [of "\<lparr>NODE_ENV = None, JWT_SECRET = None\<rparr>"]
    C7_secret_and_warning [of "\<lparr>NODE_ENV = Some ''test'', JWT_SECRET = None\<rparr>"]
    C7_secret_and_warning [of "\<lparr>NODE_ENV = Some ''test'', JWT_SECRET = Some ''test-secret-key''\<rparr>"]
    C7_secret_and_warning [of "\<lparr>NODE_ENV = None, JWT_SECRET = Some ''test-secret-key''\<rparr>"]
  by simp

text \<open>
  \<open>JWT_SECRET\<close> set, to the empty string, outside test mode: the secret used is the
  development secret, not the variable's value, and the warning is logged.
\<close>

theorem C7_empty_secret_counterexample:
  "JWT_SECRET \<lparr>NODE_ENV = None, JWT_SECRET = Some ''''\<rparr> = Some ''''
   \<and> secret (snd (jwtPlugin \<lparr>NODE_ENV = None, JWT_SECRET = Some ''''\<rparr>))
       = ''development-secret-change-in-production''
   \<and> secret (snd (jwtPlugin \<lparr>NODE_ENV = None, JWT_SECRET = Some ''''\<rparr>)) \<noteq> ''''
   \<and> fst (jwtPlugin \<lparr>NODE_ENV = None, JWT_SECRET = Some ''''\<rparr>) \<noteq> []"
  by (simp add: jwtPlugin_def)

text \<open>
  C1. Whenever verification throws, for whatever reason (the decorator does not look at
  what was thrown, so a missing or malformed header, a bad signature, an expired or an
  undecodable token are all the same to it), the decorator sets status 401 and sends
  exactly \<open>{ error: { message: "Unauthorized", code: "UNAUTHORIZED", statusCode: 401 } }\<close>;
  on a protected route this reply is the response, and the route handler is not invoked
  and none of its effects take place.
\<close>

theorem C1_unauthorized_aborts:
  assumes "jwtVerify req = Inl e"
  shows "authenticate jwtVerify req rep =
           (req, rep\<lparr>status := 401,
                     payload := Some (Obj [(''error'', Obj
                       [(''message'', Str ''Unauthorized''),
                        (''code'', Str ''UNAUTHORIZED''),
                        (''statusCode'', Num 401)])]),
                     sent := True\<rparr>)
       \<and> protected_route jwtVerify handler req s =
           \<lparr>response = \<lparr>status = 401,
                        payload = Some (Obj [(''error'', Obj
                          [(''message'', Str ''Unauthorized''),
                           (''code'', Str ''UNAUTHORIZED''),
                           (''statusCode'', Num 401)])]),
                        sent = True\<rparr>,
            handler_invoked = False,
            effects = s\<rparr>"
  using assms by (simp add: authenticate_def protected_route_def new_reply_def)

text \<open>
  The theorem at a request without an \<open>Authorization\<close> header, with a verifier that
  rejects such a request and a handler that counts its invocations.
\<close>

theorem C1_unauthorized_aborts_witness:
  "(\<lambda>r. case authorization r of
           None \<Rightarrow> Inl ''No Authorization was found in request.headers''
         | Some h \<Rightarrow> Inr (r\<lparr>user := Some (Obj [])\<rparr>)) \<lparr>authorization = None, user = None\<rparr>
     = Inl ''No Authorization was found in request.headers''
   \<and> protected_route
       (\<lambda>r. case authorization r of
           None \<Rightarrow> Inl ''No Authorization was found in request.headers''
         | Some h \<Rightarrow> Inr (r\<lparr>user := Some (Obj [])\<rparr>))
       (\<lambda>r n. (Suc n, Obj [(''user'', Undefined)]))
       \<lparr>authorization = None, user = None\<rparr> (0::nat) =
           \<lparr>response = \<lparr>status = 401,
                        payload = Some (Obj [(''error'', Obj
                          [(''message'', Str ''Unauthorized''),
                           (''code'', Str ''UNAUTHORIZED''),
                           (''statusCode'', Num 401)])]),
                        sent = True\<rparr>,
            handler_invoked = False,
            effects = 0\<rparr>"
  using C1_unauthorized_aborts [of
      "\<lambda>r. case authorization r of
           None \<Rightarrow> Inl ''No Authorization was found in request.headers''
         | Some h \<Rightarrow> Inr (r\<lparr>user := Some (Obj [])\<rparr>)"
      "\<lparr>authorization = None, user = None\<rparr>"
      "''No Authorization was found in request.headers''"
      new_reply
      "\<lambda>r n. (Suc n, Obj [(''user'', Undefined)])" "0::nat"]
  by simp

text \<open>
  C10. The body the decorator sends on an authentication failure has exactly the fields
  \<open>message\<close>, \<open>code\<close> and \<open>statusCode\<close>, and neither \<open>stack\<close> nor \<open>validation\<close>. The
  decorator does not read the environment and does not go through the error handler, so
  this holds in every mode, production or not.
\<close>

theorem C10_unauthorized_body_fields:
  assumes "jwtVerify req = Inl e"
  shows "\<exists>p. payload (snd (authenticate jwtVerify req rep)) = Some p
           \<and> error_keys p = [''message'', ''code'', ''statusCode'']
           \<and> error_field p ''stack'' = None
           \<and> error_field p ''validation'' = None"
  using assms
  by (simp add: authenticate_def error_keys_def error_field_def error_object_def
      json_members_def)

text \<open>The theorem at a request with a malformed \<open>Authorization\<close> header.\<close>

theorem C10_unauthorized_body_fields_witness:
  "error_keys (Obj [(''error'', Obj
       [(''message'', Str ''Unauthorized''),
        (''code'', Str ''UNAUTHORIZED''),
        (''statusCode'', Num 401)])]) = [''message'', ''code'', ''statusCode'']
   \<and> payload (snd (authenticate (\<lambda>r. Inl ''Format is Authorization: Bearer [token]'')
        \<lparr>authorization = Some ''InvalidFormat'', user = None\<rparr> new_reply))
       = Some (Obj [(''error'', Obj
           [(''message'', Str ''Unauthorized''),
            (''code'', Str ''UNAUTHORIZED''),
            (''statusCode'', Num 401)])])"
  using C10_unauthorized_body_fields [of
      "\<lambda>r. Inl ''Format is Authorization: Bearer [token]''"
      "\<lparr>authorization = Some ''InvalidFormat'', user = None\<rparr>"
      "''Format is Authorization: Bearer [token]''"
      new_reply]
  by (auto simp: authenticate_def error_keys_def error_object_def json_members_def)

end
